theory Spec2Isabelle
  imports Main
begin

section \<open>The values the hooks read\<close>

text \<open>
  The file \<^verbatim>\<open>ui/static/core/js/htmx-hooks.js\<close> is one immediately invoked function
  that registers three listeners on the document. The only JavaScript values it inspects
  are \<^verbatim>\<open>window.htmx\<close> (for truthiness) and the \<^verbatim>\<open>detail\<close> of an error event (for the
  properties \<^verbatim>\<open>xhr\<close> and \<^verbatim>\<open>status\<close>). A value is a primitive or an object with own data
  properties, kept as an association list whose first binding of a key is the property.
  Numbers are the integer-valued ones (an HTTP status is an unsigned short).
\<close>

datatype jsval =
    JUndefined
  | JNull
  | JBool bool
  | JNum int
  | JStr string
  | JObj "(string \<times> jsval) list"

datatype error = TypeError | SyntaxError | InvalidCharacterError

text \<open>ToBoolean, as \<^verbatim>\<open>!x\<close> and \<^verbatim>\<open>x && y\<close> apply it.\<close>

fun truthy :: "jsval \<Rightarrow> bool" where
  "truthy JUndefined = False"
| "truthy JNull = False"
| "truthy (JBool b) = b"
| "truthy (JNum n) = (n \<noteq> 0)"
| "truthy (JStr s) = (s \<noteq> [])"
| "truthy (JObj ps) = True"

text \<open>
  The member access \<^verbatim>\<open>v.k\<close>: reading a property of \<^verbatim>\<open>undefined\<close> or \<^verbatim>\<open>null\<close> throws a
  TypeError, a missing property reads as \<^verbatim>\<open>undefined\<close>. The wrapper objects of booleans,
  numbers and strings have neither an \<^verbatim>\<open>xhr\<close> nor a \<^verbatim>\<open>status\<close> property, the only keys
  this program reads.
\<close>

fun get_prop :: "jsval \<Rightarrow> string \<Rightarrow> error + jsval" where
  "get_prop JUndefined k = Inl TypeError"
| "get_prop JNull k = Inl TypeError"
| "get_prop (JObj ps) k = (case map_of ps k of None \<Rightarrow> Inr JUndefined | Some v \<Rightarrow> Inr v)"
| "get_prop v k = Inr JUndefined"

definition bind_err :: "error + 'a \<Rightarrow> ('a \<Rightarrow> error + 'b) \<Rightarrow> error + 'b" where
  "bind_err m f = (case m of Inl err \<Rightarrow> Inl err | Inr x \<Rightarrow> f x)"

section \<open>The page: root class list, listeners, console\<close>

record event =
  etype :: string
  detail :: jsval

text \<open>The three function expressions of the file, in the order they are registered.\<close>

datatype listener = SendListener | AfterOnLoadListener | ResponseErrorListener

datatype level = Log | Warn

record env =
  window_htmx :: jsval
  classList :: "string list"
  listeners :: "(string \<times> listener) list"
  console :: "(level \<times> jsval list) list"
  reported :: "error list"

text \<open>
  \<^verbatim>\<open>document.documentElement.classList\<close> is a DOMTokenList: an ordered set of tokens.
  \<^verbatim>\<open>add\<close> and \<^verbatim>\<open>remove\<close> refuse the empty token and a token with ASCII whitespace;
  \<^verbatim>\<open>add\<close> appends a token that is not there, \<^verbatim>\<open>remove\<close> takes the token out.
\<close>

definition ascii_whitespace :: "char \<Rightarrow> bool" where
  "ascii_whitespace c =
     (c = CHR 0x09 \<or> c = CHR 0x0A \<or> c = CHR 0x0C \<or> c = CHR 0x0D \<or> c = CHR 0x20)"

definition validate_token :: "string \<Rightarrow> error + string" where
  "validate_token t =
     (if t = [] then Inl SyntaxError
      else if list_ex ascii_whitespace t then Inl InvalidCharacterError
      else Inr t)"

definition classList_add :: "string list \<Rightarrow> string \<Rightarrow> error + string list" where
  "classList_add cs t =
     bind_err (validate_token t) (\<lambda>t'. Inr (if t' \<in> set cs then cs else cs @ [t']))"

definition classList_remove :: "string list \<Rightarrow> string \<Rightarrow> error + string list" where
  "classList_remove cs t =
     bind_err (validate_token t) (\<lambda>t'. Inr (removeAll t' cs))"

text \<open>
  \<^verbatim>\<open>document.addEventListener(type, f)\<close> with a fresh function expression appends to the
  document's listener list; \<^verbatim>\<open>console.warn(a, b)\<close> appends one entry on the warning
  channel.
\<close>

definition addEventListener :: "string \<Rightarrow> listener \<Rightarrow> env \<Rightarrow> env" where
  "addEventListener ty f s = s\<lparr>listeners := listeners s @ [(ty, f)]\<rparr>"

definition console_warn :: "jsval list \<Rightarrow> env \<Rightarrow> env" where
  "console_warn args s = s\<lparr>console := console s @ [(Warn, args)]\<rparr>"

section \<open>The three listeners and the initialisation\<close>

text \<open>\<^verbatim>\<open>function () { document.documentElement.classList.add('hx-busy'); }\<close>\<close>

definition send_listener :: "event \<Rightarrow> env \<Rightarrow> error + env" where
  "send_listener e s =
     bind_err (classList_add (classList s) ''hx-busy'') (\<lambda>cs. Inr (s\<lparr>classList := cs\<rparr>))"

text \<open>\<^verbatim>\<open>function () { document.documentElement.classList.remove('hx-busy'); }\<close>\<close>

definition afterOnLoad_listener :: "event \<Rightarrow> env \<Rightarrow> error + env" where
  "afterOnLoad_listener e s =
     bind_err (classList_remove (classList s) ''hx-busy'') (\<lambda>cs. Inr (s\<lparr>classList := cs\<rparr>))"

text \<open>
  \<^verbatim>\<open>function (e) { console.warn('HTMX request failed', e.detail.xhr && e.detail.xhr.status); }\<close>
  The left operand of \<^verbatim>\<open>&&\<close> is read first; when it is falsy it is the value of the
  expression, otherwise \<^verbatim>\<open>e.detail.xhr\<close> is read again and then its \<^verbatim>\<open>status\<close>.
\<close>

definition responseError_listener :: "event \<Rightarrow> env \<Rightarrow> error + env" where
  "responseError_listener e s =
     bind_err (get_prop (detail e) ''xhr'') (\<lambda>x.
     bind_err (if truthy x
               then bind_err (get_prop (detail e) ''xhr'') (\<lambda>x'. get_prop x' ''status'')
               else Inr x) (\<lambda>v.
     Inr (console_warn [JStr ''HTMX request failed'', v] s)))"

text \<open>
  The immediately invoked function: \<^verbatim>\<open>if (!window.htmx) return;\<close> and then the three
  registrations.
\<close>

definition iife :: "env \<Rightarrow> error + env" where
  "iife s =
     (if \<not> truthy (window_htmx s) then Inr s
      else Inr (addEventListener ''htmx:responseError'' ResponseErrorListener
               (addEventListener ''htmx:afterOnLoad'' AfterOnLoadListener
               (addEventListener ''htmx:send'' SendListener s))))"

section \<open>Dispatching events\<close>

fun run_listener :: "listener \<Rightarrow> event \<Rightarrow> env \<Rightarrow> error + env" where
  "run_listener SendListener e s = send_listener e s"
| "run_listener AfterOnLoadListener e s = afterOnLoad_listener e s"
| "run_listener ResponseErrorListener e s = responseError_listener e s"

text \<open>
  The host calls the listeners registered for the event's type in the order of their
  registration. An exception thrown by a listener is reported to the host and the
  dispatch goes on with the next listener.
\<close>

definition invoke :: "event \<Rightarrow> env \<Rightarrow> string \<times> listener \<Rightarrow> env" where
  "invoke e s reg =
     (if fst reg = etype e
      then (case run_listener (snd reg) e s of
              Inl err \<Rightarrow> s\<lparr>reported := reported s @ [err]\<rparr>
            | Inr s' \<Rightarrow> s')
      else s)"

definition dispatchEvent :: "event \<Rightarrow> env \<Rightarrow> env" where
  "dispatchEvent e s = foldl (invoke e) s (listeners s)"

definition dispatch_all :: "event list \<Rightarrow> env \<Rightarrow> env" where
  "dispatch_all es s = foldl (\<lambda>s' e. dispatchEvent e s') s es"

definition busy :: "env \<Rightarrow> bool" where
  "busy s = (''hx-busy'' \<in> set (classList s))"

text \<open>The registrations the initialisation makes, in its order.\<close>

definition registrations :: "(string \<times> listener) list" where
  "registrations =
     [(''htmx:send'', SendListener),
      (''htmx:afterOnLoad'', AfterOnLoadListener),
      (''htmx:responseError'', ResponseErrorListener)]"

section \<open>Sample pages and events\<close>

text \<open>
  A page on which the library is loaded and the initialisation has run once, a page
  without the library, the first page with a request in flight, and an event of a given
  type and detail.
\<close>

definition page0 :: env where
  "page0 = \<lparr>window_htmx = JObj [], classList = [''dark''], listeners = registrations,
            console = [], reported = []\<rparr>"

definition bare_page :: env where
  "bare_page = \<lparr>window_htmx = JUndefined, classList = [''dark''], listeners = [],
            console = [], reported = []\<rparr>"

definition busy_page :: env where
  "busy_page = \<lparr>window_htmx = JObj [], classList = [''dark'', ''hx-busy''],
                listeners = registrations, console = [], reported = []\<rparr>"

definition ev :: "string \<Rightarrow> jsval \<Rightarrow> event" where
  "ev ty d = \<lparr>etype = ty, detail = d\<rparr>"

section \<open>What each listener computes\<close>

lemmas page_simps = page0_def bare_page_def ev_def registrations_def

lemma validate_busy: "validate_token ''hx-busy'' = Inr ''hx-busy''"
  by (simp add: validate_token_def ascii_whitespace_def)

lemma send_listener_eq:
  "send_listener e s =
     Inr (s\<lparr>classList := (if busy s then classList s else classList s @ [''hx-busy''])\<rparr>)"
  by (simp add: send_listener_def classList_add_def bind_err_def validate_busy busy_def)

lemma afterOnLoad_listener_eq:
  "afterOnLoad_listener e s = Inr (s\<lparr>classList := removeAll ''hx-busy'' (classList s)\<rparr>)"
  by (simp add: afterOnLoad_listener_def classList_remove_def bind_err_def validate_busy)

lemma responseError_listener_cases:
  "responseError_listener e s = Inl TypeError \<or>
   (\<exists>v. responseError_listener e s = Inr (s\<lparr>console := console s @ [(Warn, [JStr ''HTMX request failed'', v])]\<rparr>))"
proof (cases "get_prop (detail e) ''xhr''")
  case (Inl err)
  then have "err = TypeError"
    by (cases "detail e") (simp_all split: option.splits)
  with Inl show ?thesis
    by (simp add: responseError_listener_def bind_err_def)
next
  case (Inr x)
  show ?thesis
  proof (cases "truthy x")
    case False
    with Inr show ?thesis
      by (auto simp: responseError_listener_def bind_err_def console_warn_def)
  next
    case True
    then have "get_prop x ''status'' = Inl TypeError \<or> (\<exists>v. get_prop x ''status'' = Inr v)"
      by (cases x) (simp_all split: option.splits)
    with Inr True show ?thesis
      by (auto simp: responseError_listener_def bind_err_def console_warn_def)
  qed
qed

lemma iife_present:
  "truthy (window_htmx s) \<Longrightarrow> iife s = Inr (s\<lparr>listeners := listeners s @ registrations\<rparr>)"
  by (simp add: iife_def addEventListener_def registrations_def)

lemma invoke_send:
  "invoke e s (etype e, SendListener) =
     s\<lparr>classList := (if busy s then classList s else classList s @ [''hx-busy''])\<rparr>"
  by (simp add: invoke_def send_listener_eq)

lemma invoke_afterOnLoad:
  "invoke e s (etype e, AfterOnLoadListener) = s\<lparr>classList := removeAll ''hx-busy'' (classList s)\<rparr>"
  by (simp add: invoke_def afterOnLoad_listener_eq)

lemma invoke_other: "ty \<noteq> etype e \<Longrightarrow> invoke e s (ty, f) = s"
  by (simp add: invoke_def)

lemma listeners_invoke: "listeners (invoke e s reg) = listeners s"
proof (cases "snd reg")
  case SendListener
  then show ?thesis by (simp add: invoke_def send_listener_eq)
next
  case AfterOnLoadListener
  then show ?thesis by (simp add: invoke_def afterOnLoad_listener_eq)
next
  case ResponseErrorListener
  with responseError_listener_cases [of e s] show ?thesis
    by (auto simp: invoke_def)
qed

lemma foldl_invoke_inv:
  assumes "\<And>t r. r \<in> set ls \<Longrightarrow> P t \<Longrightarrow> P (invoke e t r)" and "P s"
  shows "P (foldl (invoke e) s ls)"
  using assms by (induction ls arbitrary: s) simp_all

lemma listeners_dispatchEvent: "listeners (dispatchEvent e s) = listeners s"
  unfolding dispatchEvent_def
  by (rule foldl_invoke_inv [where P = "\<lambda>t. listeners t = listeners s"])
     (simp_all add: listeners_invoke)

lemma dispatchEvent_append:
  "listeners s = old @ new \<Longrightarrow>
   dispatchEvent e s = foldl (invoke e) (foldl (invoke e) s old) new"
  by (simp add: dispatchEvent_def)

lemma foldl_registrations_send:
  "etype e = ''htmx:send'' \<Longrightarrow>
   foldl (invoke e) t registrations =
     t\<lparr>classList := (if busy t then classList t else classList t @ [''hx-busy''])\<rparr>"
  using invoke_send [of e t] by (simp add: registrations_def invoke_other)

lemma foldl_registrations_afterOnLoad:
  "etype e = ''htmx:afterOnLoad'' \<Longrightarrow>
   foldl (invoke e) t registrations = t\<lparr>classList := removeAll ''hx-busy'' (classList t)\<rparr>"
  using invoke_afterOnLoad [of e t] by (simp add: registrations_def invoke_other)

lemma foldl_registrations_responseError:
  "etype e = ''htmx:responseError'' \<Longrightarrow>
   foldl (invoke e) t registrations = invoke e t (''htmx:responseError'', ResponseErrorListener)"
  by (simp add: registrations_def invoke_other)

lemma busy_after_send:
  assumes "listeners s = old @ registrations" and "etype e = ''htmx:send''"
  shows "busy (dispatchEvent e s)"
  by (simp add: dispatchEvent_append [OF assms(1)] foldl_registrations_send [OF assms(2)] busy_def)

lemma idle_after_afterOnLoad:
  assumes "listeners s = old @ registrations" and "etype e = ''htmx:afterOnLoad''"
  shows "\<not> busy (dispatchEvent e s)"
  by (simp add: dispatchEvent_append [OF assms(1)] foldl_registrations_afterOnLoad [OF assms(2)] busy_def)

lemma others_invoke:
  "removeAll ''hx-busy'' (classList (invoke e s reg)) = removeAll ''hx-busy'' (classList s)"
proof (cases "snd reg")
  case SendListener
  then show ?thesis by (simp add: invoke_def send_listener_eq)
next
  case AfterOnLoadListener
  then show ?thesis by (simp add: invoke_def afterOnLoad_listener_eq)
next
  case ResponseErrorListener
  with responseError_listener_cases [of e s] show ?thesis
    by (auto simp: invoke_def)
qed

lemma others_dispatchEvent:
  "removeAll ''hx-busy'' (classList (dispatchEvent e s)) = removeAll ''hx-busy'' (classList s)"
  unfolding dispatchEvent_def
  by (rule foldl_invoke_inv
        [where P = "\<lambda>t. removeAll ''hx-busy'' (classList t) = removeAll ''hx-busy'' (classList s)"])
     (simp_all add: others_invoke)

lemma others_dispatch_all:
  "removeAll ''hx-busy'' (classList (dispatch_all es s)) = removeAll ''hx-busy'' (classList s)"
  unfolding dispatch_all_def
  by (induction es arbitrary: s) (simp_all add: others_dispatchEvent)

lemma classList_invoke_responseError:
  "classList (invoke e s (ty, ResponseErrorListener)) = classList s"
  using responseError_listener_cases [of e s] by (auto simp: invoke_def)

lemma console_invoke_send: "console (invoke e s (ty, SendListener)) = console s"
  by (simp add: invoke_def send_listener_eq)

lemma console_invoke_afterOnLoad: "console (invoke e s (ty, AfterOnLoadListener)) = console s"
  by (simp add: invoke_def afterOnLoad_listener_eq)

lemma in_registrations:
  "r \<in> set registrations \<longleftrightarrow>
     r = (''htmx:send'', SendListener) \<or> r = (''htmx:afterOnLoad'', AfterOnLoadListener)
     \<or> r = (''htmx:responseError'', ResponseErrorListener)"
  by (auto simp: registrations_def)

section \<open>The error listener on a missing detail\<close>

text \<open>
  C1, as stated, fails: on an event whose \<^verbatim>\<open>detail\<close> is \<^verbatim>\<open>undefined\<close> the listener throws
  a TypeError at \<^verbatim>\<open>e.detail.xhr\<close>, before \<^verbatim>\<open>console.warn\<close> is called; the dispatch
  leaves the console empty and the host gets the exception.
\<close>

theorem responseError_undefined_detail_throws:
  "responseError_listener (ev ''htmx:responseError'' JUndefined) page0 = Inl TypeError
   \<and> console (dispatchEvent (ev ''htmx:responseError'' JUndefined) page0) = []
   \<and> reported (dispatchEvent (ev ''htmx:responseError'' JUndefined) page0) = [TypeError]"
  by (simp add: responseError_listener_def bind_err_def dispatchEvent_def invoke_def page_simps)

text \<open>
  C1, amended: on an event whose detail is the empty object the error listener does not
  throw and appends exactly one entry on the warning channel, made of the fixed message
  and \<^verbatim>\<open>undefined\<close>; a dispatch of that event on a page where the initialisation ran
  once adds that entry and changes nothing else.
\<close>

theorem responseError_empty_detail_logs_undefined:
  "(detail e = JObj [] \<longrightarrow>
      responseError_listener e s =
        Inr (s\<lparr>console := console s @ [(Warn, [JStr ''HTMX request failed'', JUndefined])]\<rparr>))
   \<and> (detail e = JObj [] \<and> listeners s = registrations \<and> etype e = ''htmx:responseError'' \<longrightarrow>
      dispatchEvent e s =
        s\<lparr>console := console s @ [(Warn, [JStr ''HTMX request failed'', JUndefined])]\<rparr>)"
proof -
  have a: "responseError_listener e s =
        Inr (s\<lparr>console := console s @ [(Warn, [JStr ''HTMX request failed'', JUndefined])]\<rparr>)"
    if "detail e = JObj []"
    using that by (simp add: responseError_listener_def bind_err_def console_warn_def)
  have b: "dispatchEvent e s =
        s\<lparr>console := console s @ [(Warn, [JStr ''HTMX request failed'', JUndefined])]\<rparr>"
    if "detail e = JObj []" "listeners s = registrations" "etype e = ''htmx:responseError''"
    using that by (simp add: dispatchEvent_def foldl_registrations_responseError invoke_def a)
  from a b show ?thesis by blast
qed

theorem responseError_empty_detail_logs_undefined_witness:
  "detail (ev ''htmx:responseError'' (JObj [])) = JObj []
   \<and> listeners page0 = registrations
   \<and> etype (ev ''htmx:responseError'' (JObj [])) = ''htmx:responseError''
   \<and> responseError_listener (ev ''htmx:responseError'' (JObj [])) page0
       = Inr (page0\<lparr>console := [(Warn, [JStr ''HTMX request failed'', JUndefined])]\<rparr>)
   \<and> console (dispatchEvent (ev ''htmx:responseError'' (JObj [])) page0)
       = [(Warn, [JStr ''HTMX request failed'', JUndefined])]"
  using responseError_empty_detail_logs_undefined [of "ev ''htmx:responseError'' (JObj [])" page0]
  by (simp add: page_simps)

section \<open>Initialisation without the library\<close>

text \<open>
  C2: when \<^verbatim>\<open>window.htmx\<close> is falsy the initialisation returns normally and leaves the
  page as it was: the listener list is the one before the call, so no listener has been
  registered, neither all three nor some of them.
\<close>

theorem iife_without_htmx_registers_nothing:
  "\<not> truthy (window_htmx s) \<Longrightarrow> iife s = Inr s"
  by (simp add: iife_def)

theorem iife_without_htmx_registers_nothing_witness:
  "\<not> truthy (window_htmx bare_page) \<and> iife bare_page = Inr bare_page \<and> listeners bare_page = []"
  using iife_without_htmx_registers_nothing [of bare_page] by (simp add: page_simps)

section \<open>The busy class over event sequences\<close>

text \<open>
  C3: on a page where the library is present and the initialisation has run, whatever
  the root's classes are, after a dispatch of \<^verbatim>\<open>htmx:send\<close> the class \<^verbatim>\<open>hx-busy\<close> is on
  the root element, and after a following dispatch of \<^verbatim>\<open>htmx:afterOnLoad\<close> it is not.
\<close>

theorem send_then_afterOnLoad_toggles_busy:
  assumes "truthy (window_htmx s0)" and "iife s0 = Inr s"
    and "etype e1 = ''htmx:send''" and "etype e2 = ''htmx:afterOnLoad''"
  shows "busy (dispatchEvent e1 s) \<and> \<not> busy (dispatchEvent e2 (dispatchEvent e1 s))"
proof -
  from assms(1,2) have ls: "listeners s = listeners s0 @ registrations"
    by (auto simp: iife_present)
  then have "listeners (dispatchEvent e1 s) = listeners s0 @ registrations"
    by (simp add: listeners_dispatchEvent)
  with ls assms(3,4) show ?thesis
    by (simp add: busy_after_send idle_after_afterOnLoad)
qed

theorem send_then_afterOnLoad_toggles_busy_witness:
  "truthy (window_htmx (bare_page\<lparr>window_htmx := JObj []\<rparr>))
   \<and> iife (bare_page\<lparr>window_htmx := JObj []\<rparr>) = Inr page0
   \<and> etype (ev ''htmx:send'' (JObj [])) = ''htmx:send''
   \<and> etype (ev ''htmx:afterOnLoad'' (JObj [])) = ''htmx:afterOnLoad''
   \<and> busy (dispatchEvent (ev ''htmx:send'' (JObj [])) page0)
   \<and> \<not> busy (dispatchEvent (ev ''htmx:afterOnLoad'' (JObj []))
               (dispatchEvent (ev ''htmx:send'' (JObj [])) page0))"
proof -
  have a: "truthy (window_htmx (bare_page\<lparr>window_htmx := JObj []\<rparr>))"
    by (simp add: page_simps)
  have b: "iife (bare_page\<lparr>window_htmx := JObj []\<rparr>) = Inr page0"
    by (simp add: iife_def addEventListener_def page_simps)
  have c: "etype (ev ''htmx:send'' (JObj [])) = ''htmx:send''"
    and d: "etype (ev ''htmx:afterOnLoad'' (JObj [])) = ''htmx:afterOnLoad''"
    by (simp_all add: ev_def)
  from send_then_afterOnLoad_toggles_busy [OF a b c d] a b c d show ?thesis by simp
qed

section \<open>Idempotence on the class list\<close>

text \<open>
  C4: adding \<^verbatim>\<open>hx-busy\<close> to a class list that has it returns the same list, and
  removing it from a class list that does not have it returns the same list; so the send
  listener leaves a busy page as it is, and the completion listener leaves an idle page
  as it is.
\<close>

theorem busy_class_add_remove_idempotent:
  "(''hx-busy'' \<in> set cs \<longrightarrow> classList_add cs ''hx-busy'' = Inr cs)
   \<and> (''hx-busy'' \<notin> set cs \<longrightarrow> classList_remove cs ''hx-busy'' = Inr cs)
   \<and> (busy s \<longrightarrow> send_listener e s = Inr s)
   \<and> (\<not> busy s \<longrightarrow> afterOnLoad_listener e s = Inr s)"
  by (simp add: classList_add_def classList_remove_def bind_err_def validate_busy
        send_listener_eq afterOnLoad_listener_eq busy_def)

theorem busy_class_add_remove_idempotent_witness:
  "''hx-busy'' \<in> set [''dark'', ''hx-busy'']
   \<and> classList_add [''dark'', ''hx-busy''] ''hx-busy'' = Inr [''dark'', ''hx-busy'']
   \<and> ''hx-busy'' \<notin> set [''dark'']
   \<and> classList_remove [''dark''] ''hx-busy'' = Inr [''dark'']
   \<and> busy (page0\<lparr>classList := [''dark'', ''hx-busy'']\<rparr>)
   \<and> send_listener (ev ''htmx:send'' JNull) (page0\<lparr>classList := [''dark'', ''hx-busy'']\<rparr>)
       = Inr (page0\<lparr>classList := [''dark'', ''hx-busy'']\<rparr>)
   \<and> \<not> busy page0
   \<and> afterOnLoad_listener (ev ''htmx:afterOnLoad'' JNull) page0 = Inr page0"
  using busy_class_add_remove_idempotent [of "[''dark'', ''hx-busy'']" "page0\<lparr>classList := [''dark'', ''hx-busy'']\<rparr>"
                   "ev ''htmx:send'' JNull"]
        busy_class_add_remove_idempotent [of "[''dark'']" page0 "ev ''htmx:afterOnLoad'' JNull"]
  by (simp add: busy_def page0_def)

section \<open>What the error listener logs\<close>

text \<open>
  C5: when the detail is an object whose \<^verbatim>\<open>xhr\<close> is an object whose \<^verbatim>\<open>status\<close> is 500, the
  error listener appends exactly one entry on the warning channel, made of the text
  \<^verbatim>\<open>HTMX request failed\<close> and the number 500; a dispatch of that event on a page where
  the initialisation ran once adds that entry and no other.
\<close>

theorem responseError_status_500_logged:
  assumes "detail e = JObj ds" and "map_of ds ''xhr'' = Some (JObj xs)"
    and "map_of xs ''status'' = Some (JNum 500)"
  shows "responseError_listener e s =
           Inr (s\<lparr>console := console s @ [(Warn, [JStr ''HTMX request failed'', JNum 500])]\<rparr>)
         \<and> (listeners s = registrations \<and> etype e = ''htmx:responseError'' \<longrightarrow>
              console (dispatchEvent e s) =
                console s @ [(Warn, [JStr ''HTMX request failed'', JNum 500])])"
proof -
  have a: "responseError_listener e t =
           Inr (t\<lparr>console := console t @ [(Warn, [JStr ''HTMX request failed'', JNum 500])]\<rparr>)"
    for t
    using assms by (simp add: responseError_listener_def bind_err_def console_warn_def)
  then show ?thesis
    by (simp add: dispatchEvent_def foldl_registrations_responseError invoke_def)
qed

theorem responseError_status_500_logged_witness:
  "detail (ev ''htmx:responseError'' (JObj [(''xhr'', JObj [(''status'', JNum 500)])]))
     = JObj [(''xhr'', JObj [(''status'', JNum 500)])]
   \<and> map_of [(''xhr'', JObj [(''status'', JNum 500)])] ''xhr'' = Some (JObj [(''status'', JNum 500)])
   \<and> map_of [(''status'', JNum 500)] ''status'' = Some (JNum 500)
   \<and> listeners page0 = registrations
   \<and> console (dispatchEvent
        (ev ''htmx:responseError'' (JObj [(''xhr'', JObj [(''status'', JNum 500)])])) page0)
       = [(Warn, [JStr ''HTMX request failed'', JNum 500])]"
  using responseError_status_500_logged [of "ev ''htmx:responseError'' (JObj [(''xhr'', JObj [(''status'', JNum 500)])])"
                   "[(''xhr'', JObj [(''status'', JNum 500)])]" "[(''status'', JNum 500)]" page0]
  by (simp add: ev_def page0_def)

text \<open>
  C6, as stated, fails: the handler takes \<^verbatim>\<open>e.detail.xhr\<close> for a transport handle when it
  is truthy, and \<^verbatim>\<open>&&\<close> yields a falsy left operand itself. On a detail whose \<^verbatim>\<open>xhr\<close> is
  \<^verbatim>\<open>0\<close> or \<^verbatim>\<open>false\<close> there is no transport handle, the handler does not throw, and the
  entry holds the number \<^verbatim>\<open>0\<close> or the boolean \<^verbatim>\<open>false\<close>, neither \<^verbatim>\<open>undefined\<close> nor
  \<^verbatim>\<open>null\<close>.
\<close>

theorem responseError_falsy_xhr_logged_as_is:
  "detail (ev ''htmx:responseError'' (JObj [(''xhr'', JNum 0)])) \<noteq> JUndefined
   \<and> detail (ev ''htmx:responseError'' (JObj [(''xhr'', JNum 0)])) \<noteq> JNull
   \<and> \<not> truthy (JNum 0)
   \<and> responseError_listener (ev ''htmx:responseError'' (JObj [(''xhr'', JNum 0)])) page0
       = Inr (page0\<lparr>console := [(Warn, [JStr ''HTMX request failed'', JNum 0])]\<rparr>)
   \<and> JNum 0 \<noteq> JUndefined \<and> JNum 0 \<noteq> JNull
   \<and> \<not> truthy (JBool False)
   \<and> responseError_listener (ev ''htmx:responseError'' (JObj [(''xhr'', JBool False)])) page0
       = Inr (page0\<lparr>console := [(Warn, [JStr ''HTMX request failed'', JBool False])]\<rparr>)
   \<and> JBool False \<noteq> JUndefined \<and> JBool False \<noteq> JNull"
  by (simp add: responseError_listener_def bind_err_def console_warn_def page_simps)

text \<open>
  C6, amended: when the detail is there (neither \<^verbatim>\<open>undefined\<close> nor \<^verbatim>\<open>null\<close>) the error
  listener does not throw and appends exactly one entry on the warning channel, the fixed
  message and one value. When the detail's \<^verbatim>\<open>xhr\<close> is \<^verbatim>\<open>undefined\<close> or \<^verbatim>\<open>null\<close>, or when
  \<^verbatim>\<open>xhr\<close> is truthy and its \<^verbatim>\<open>status\<close> is \<^verbatim>\<open>undefined\<close> or \<^verbatim>\<open>null\<close>, that value is
  \<^verbatim>\<open>undefined\<close> or \<^verbatim>\<open>null\<close>, as read. In general a falsy \<^verbatim>\<open>xhr\<close> (also \<^verbatim>\<open>false\<close>, \<^verbatim>\<open>0\<close>,
  the empty string) is logged as itself, and for a truthy \<^verbatim>\<open>xhr\<close> its \<^verbatim>\<open>status\<close> is
  logged as read.
\<close>

theorem responseError_missing_xhr_or_status_logs_absent:
  "(detail e \<noteq> JUndefined \<and> detail e \<noteq> JNull \<longrightarrow>
      (\<exists>m. responseError_listener e s =
             Inr (s\<lparr>console := console s @ [(Warn, [JStr ''HTMX request failed'', m])]\<rparr>)))
   \<and> (get_prop (detail e) ''xhr'' = Inr x
        \<and> ((x = JUndefined \<or> x = JNull)
            \<or> (truthy x \<and> get_prop x ''status'' = Inr v \<and> (v = JUndefined \<or> v = JNull))) \<longrightarrow>
      (\<exists>m. (m = JUndefined \<or> m = JNull) \<and>
           responseError_listener e s =
             Inr (s\<lparr>console := console s @ [(Warn, [JStr ''HTMX request failed'', m])]\<rparr>)))
   \<and> (get_prop (detail e) ''xhr'' = Inr x \<and> \<not> truthy x \<longrightarrow>
      responseError_listener e s =
        Inr (s\<lparr>console := console s @ [(Warn, [JStr ''HTMX request failed'', x])]\<rparr>))
   \<and> (get_prop (detail e) ''xhr'' = Inr x \<and> truthy x \<and> get_prop x ''status'' = Inr v \<longrightarrow>
      responseError_listener e s =
        Inr (s\<lparr>console := console s @ [(Warn, [JStr ''HTMX request failed'', v])]\<rparr>))"
proof -
  let ?logs = "\<lambda>m. responseError_listener e s =
        Inr (s\<lparr>console := console s @ [(Warn, [JStr ''HTMX request failed'', m])]\<rparr>)"
  have falsy: "?logs y" if "get_prop (detail e) ''xhr'' = Inr y" and "\<not> truthy y" for y
    using that by (simp add: responseError_listener_def bind_err_def console_warn_def)
  have status: "?logs w"
    if "get_prop (detail e) ''xhr'' = Inr y" and "truthy y" and "get_prop y ''status'' = Inr w"
    for y w
    using that by (simp add: responseError_listener_def bind_err_def console_warn_def)
  have reads: "\<exists>w. get_prop y ''status'' = Inr w" if "truthy y" for y
    using that by (cases y) (auto split: option.splits)
  have present: "\<exists>m. ?logs m" if "detail e \<noteq> JUndefined" and "detail e \<noteq> JNull"
  proof -
    from that have "\<exists>y. get_prop (detail e) ''xhr'' = Inr y"
      by (cases "detail e") (auto split: option.splits)
    then obtain y where y: "get_prop (detail e) ''xhr'' = Inr y" ..
    show ?thesis
    proof (cases "truthy y")
      case True
      with reads obtain w where "get_prop y ''status'' = Inr w" by blast
      with y True have "?logs w" by (rule status)
      then show ?thesis ..
    next
      case False
      with y have "?logs y" by (rule falsy)
      then show ?thesis ..
    qed
  qed
  have absent: "\<exists>m. (m = JUndefined \<or> m = JNull) \<and> ?logs m"
    if "get_prop (detail e) ''xhr'' = Inr x"
      and "(x = JUndefined \<or> x = JNull)
           \<or> (truthy x \<and> get_prop x ''status'' = Inr v \<and> (v = JUndefined \<or> v = JNull))"
  proof -
    from that(2) consider "x = JUndefined \<or> x = JNull"
      | "truthy x" "get_prop x ''status'' = Inr v" "v = JUndefined \<or> v = JNull"
      by blast
    then show ?thesis
    proof cases
      case 1
      then have "\<not> truthy x" by auto
      with that(1) have "?logs x" by (rule falsy)
      with 1 show ?thesis by blast
    next
      case 2
      from that(1) 2(1,2) have "?logs v" by (rule status)
      with 2(3) show ?thesis by blast
    qed
  qed
  from present absent falsy status show ?thesis by blast
qed

theorem responseError_missing_xhr_or_status_logs_absent_witness:
  "detail (ev ''htmx:responseError'' (JObj [(''elt'', JNull)])) \<noteq> JUndefined
   \<and> detail (ev ''htmx:responseError'' (JObj [(''elt'', JNull)])) \<noteq> JNull
   \<and> get_prop (detail (ev ''htmx:responseError'' (JObj [(''elt'', JNull)]))) ''xhr'' = Inr JUndefined
   \<and> \<not> truthy JUndefined
   \<and> responseError_listener (ev ''htmx:responseError'' (JObj [(''elt'', JNull)])) page0
       = Inr (page0\<lparr>console := [(Warn, [JStr ''HTMX request failed'', JUndefined])]\<rparr>)
   \<and> get_prop (detail (ev ''htmx:responseError'' (JObj [(''xhr'', JNull)]))) ''xhr'' = Inr JNull
   \<and> \<not> truthy JNull
   \<and> responseError_listener (ev ''htmx:responseError'' (JObj [(''xhr'', JNull)])) page0
       = Inr (page0\<lparr>console := [(Warn, [JStr ''HTMX request failed'', JNull])]\<rparr>)
   \<and> get_prop (detail (ev ''htmx:responseError'' (JObj [(''xhr'', JObj [(''status'', JNull)])])))
        ''xhr'' = Inr (JObj [(''status'', JNull)])
   \<and> truthy (JObj [(''status'', JNull)])
   \<and> get_prop (JObj [(''status'', JNull)]) ''status'' = Inr JNull
   \<and> responseError_listener
        (ev ''htmx:responseError'' (JObj [(''xhr'', JObj [(''status'', JNull)])])) page0
       = Inr (page0\<lparr>console := [(Warn, [JStr ''HTMX request failed'', JNull])]\<rparr>)"
  using responseError_missing_xhr_or_status_logs_absent
          [of "ev ''htmx:responseError'' (JObj [(''elt'', JNull)])" page0 JUndefined JUndefined]
        responseError_missing_xhr_or_status_logs_absent
          [of "ev ''htmx:responseError'' (JObj [(''xhr'', JNull)])" page0 JNull JNull]
        responseError_missing_xhr_or_status_logs_absent
          [of "ev ''htmx:responseError'' (JObj [(''xhr'', JObj [(''status'', JNull)])])" page0
              "JObj [(''status'', JNull)]" JNull]
  by (simp add: ev_def page0_def)

section \<open>Frame properties\<close>

text \<open>
  C7: the error listener, whether it returns or throws, leaves the root's class list as
  it was, so \<^verbatim>\<open>hx-busy\<close> is there afterwards exactly when it was there before; the same
  holds for a dispatch of \<^verbatim>\<open>htmx:responseError\<close> on a page that holds only registrations
  of this file. The send listener never takes the class away and the completion
  listener never puts it there.
\<close>

theorem responseError_keeps_classList:
  "classList (invoke e s (ty, ResponseErrorListener)) = classList s
   \<and> (busy (invoke e s (ty, ResponseErrorListener)) \<longleftrightarrow> busy s)
   \<and> (\<forall>s'. responseError_listener e s = Inr s' \<longrightarrow> classList s' = classList s)
   \<and> (set (listeners s) \<subseteq> set registrations \<and> etype e = ''htmx:responseError'' \<longrightarrow>
        classList (dispatchEvent e s) = classList s)
   \<and> (\<forall>s'. busy s \<and> send_listener e s = Inr s' \<longrightarrow> busy s')
   \<and> (\<forall>s'. \<not> busy s \<and> afterOnLoad_listener e s = Inr s' \<longrightarrow> \<not> busy s')"
proof -
  have inv: "classList (invoke e s (ty, ResponseErrorListener)) = classList s"
    by (rule classList_invoke_responseError)
  have flag: "busy (invoke e s (ty, ResponseErrorListener)) \<longleftrightarrow> busy s"
    by (simp add: busy_def inv)
  have ret: "\<forall>s'. responseError_listener e s = Inr s' \<longrightarrow> classList s' = classList s"
    using responseError_listener_cases [of e s] by auto
  have disp: "set (listeners s) \<subseteq> set registrations \<and> etype e = ''htmx:responseError'' \<longrightarrow>
        classList (dispatchEvent e s) = classList s"
  proof
    assume h: "set (listeners s) \<subseteq> set registrations \<and> etype e = ''htmx:responseError''"
    show "classList (dispatchEvent e s) = classList s"
      unfolding dispatchEvent_def
    proof (rule foldl_invoke_inv [where P = "\<lambda>t. classList t = classList s"])
      fix t :: env and r :: "string \<times> listener"
      assume "r \<in> set (listeners s)" and eq: "classList t = classList s"
      with h have "r \<in> set registrations" by blast
      then show "classList (invoke e t r) = classList s"
        using h eq by (auto simp: in_registrations invoke_other classList_invoke_responseError)
    qed simp
  qed
  have keep: "\<forall>s'. busy s \<and> send_listener e s = Inr s' \<longrightarrow> busy s'"
    by (auto simp: send_listener_eq)
  have idle: "\<forall>s'. \<not> busy s \<and> afterOnLoad_listener e s = Inr s' \<longrightarrow> \<not> busy s'"
    by (auto simp: afterOnLoad_listener_eq busy_def)
  show ?thesis
    by (intro conjI; fact)
qed

theorem responseError_keeps_classList_witness:
  "responseError_listener (ev ''htmx:responseError'' (JObj [])) busy_page
     = Inr (busy_page\<lparr>console := [(Warn, [JStr ''HTMX request failed'', JUndefined])]\<rparr>)
   \<and> classList (busy_page\<lparr>console := [(Warn, [JStr ''HTMX request failed'', JUndefined])]\<rparr>)
       = classList busy_page
   \<and> set (listeners busy_page) \<subseteq> set registrations
   \<and> etype (ev ''htmx:responseError'' (JObj [])) = ''htmx:responseError''
   \<and> classList (dispatchEvent (ev ''htmx:responseError'' (JObj [])) busy_page)
       = [''dark'', ''hx-busy'']
   \<and> busy busy_page
   \<and> send_listener (ev ''htmx:responseError'' (JObj [])) busy_page = Inr busy_page
   \<and> busy (invoke (ev ''htmx:responseError'' JUndefined) busy_page
               (''htmx:responseError'', ResponseErrorListener))
   \<and> \<not> busy page0
   \<and> afterOnLoad_listener (ev ''htmx:responseError'' JUndefined) page0 = Inr page0"
  using responseError_keeps_classList
          [of "ev ''htmx:responseError'' (JObj [])" busy_page "''htmx:responseError''"]
        responseError_keeps_classList
          [of "ev ''htmx:responseError'' JUndefined" busy_page "''htmx:responseError''"]
        responseError_keeps_classList
          [of "ev ''htmx:responseError'' JUndefined" page0 "''htmx:responseError''"]
  by (simp add: responseError_listener_def bind_err_def console_warn_def send_listener_eq
        afterOnLoad_listener_eq busy_def busy_page_def page_simps)

text \<open>
  C8: on a page where the library is present and the initialisation has run, after the
  events \<^verbatim>\<open>htmx:send\<close>, \<^verbatim>\<open>htmx:send\<close>, \<^verbatim>\<open>htmx:afterOnLoad\<close> the class \<^verbatim>\<open>hx-busy\<close> is not
  on the root element (it is there after the two send events): one completion clears
  what two sends have set.
\<close>

theorem send_send_afterOnLoad_clears_busy:
  assumes "truthy (window_htmx s0)" and "iife s0 = Inr s"
    and "etype e1 = ''htmx:send''" and "etype e2 = ''htmx:send''"
    and "etype e3 = ''htmx:afterOnLoad''"
  shows "busy (dispatch_all [e1, e2] s) \<and> \<not> busy (dispatch_all [e1, e2, e3] s)"
proof -
  from assms(1,2) have "listeners s = listeners s0 @ registrations"
    by (auto simp: iife_present)
  then have "listeners (dispatchEvent e1 s) = listeners s0 @ registrations"
    and "listeners (dispatchEvent e2 (dispatchEvent e1 s)) = listeners s0 @ registrations"
    by (simp_all add: listeners_dispatchEvent)
  with assms(4,5) show ?thesis
    by (simp add: dispatch_all_def busy_after_send idle_after_afterOnLoad)
qed

theorem send_send_afterOnLoad_clears_busy_witness:
  "truthy (window_htmx (bare_page\<lparr>window_htmx := JBool True\<rparr>))
   \<and> iife (bare_page\<lparr>window_htmx := JBool True\<rparr>) = Inr (page0\<lparr>window_htmx := JBool True\<rparr>)
   \<and> etype (ev ''htmx:send'' JNull) = ''htmx:send''
   \<and> etype (ev ''htmx:afterOnLoad'' JNull) = ''htmx:afterOnLoad''
   \<and> busy (dispatch_all [ev ''htmx:send'' JNull, ev ''htmx:send'' JNull]
             (page0\<lparr>window_htmx := JBool True\<rparr>))
   \<and> \<not> busy (dispatch_all
               [ev ''htmx:send'' JNull, ev ''htmx:send'' JNull, ev ''htmx:afterOnLoad'' JNull]
               (page0\<lparr>window_htmx := JBool True\<rparr>))"
proof -
  have a: "truthy (window_htmx (bare_page\<lparr>window_htmx := JBool True\<rparr>))"
    by (simp add: page_simps)
  have b: "iife (bare_page\<lparr>window_htmx := JBool True\<rparr>) = Inr (page0\<lparr>window_htmx := JBool True\<rparr>)"
    by (simp add: iife_def addEventListener_def page_simps)
  have c: "etype (ev ''htmx:send'' JNull) = ''htmx:send''"
    and d: "etype (ev ''htmx:afterOnLoad'' JNull) = ''htmx:afterOnLoad''"
    by (simp_all add: ev_def)
  from send_send_afterOnLoad_clears_busy [OF a b c c d] a b c d show ?thesis by simp
qed

text \<open>
  C9: for every sequence of events the root's class list, with \<^verbatim>\<open>hx-busy\<close> taken out,
  is at the end what it was at the start, so every other class is there at the end
  exactly when it was there at the start; and each of the three listeners, when it
  returns, has kept every other class.
\<close>

theorem other_classes_preserved:
  "removeAll ''hx-busy'' (classList (dispatch_all es s)) = removeAll ''hx-busy'' (classList s)
   \<and> (\<forall>c. c \<noteq> ''hx-busy'' \<longrightarrow>
         (c \<in> set (classList (dispatch_all es s)) \<longleftrightarrow> c \<in> set (classList s)))
   \<and> (\<forall>s' c. run_listener f e s = Inr s' \<and> c \<noteq> ''hx-busy'' \<longrightarrow>
         (c \<in> set (classList s') \<longleftrightarrow> c \<in> set (classList s)))"
proof -
  have a: "removeAll ''hx-busy'' (classList (dispatch_all es s)) = removeAll ''hx-busy'' (classList s)"
    by (rule others_dispatch_all)
  have "set (removeAll ''hx-busy'' (classList (dispatch_all es s)))
          = set (removeAll ''hx-busy'' (classList s))"
    by (simp only: a)
  then have b: "\<forall>c. c \<noteq> ''hx-busy'' \<longrightarrow>
         (c \<in> set (classList (dispatch_all es s)) \<longleftrightarrow> c \<in> set (classList s))"
    by auto
  have c: "\<forall>s' c. run_listener f e s = Inr s' \<and> c \<noteq> ''hx-busy'' \<longrightarrow>
         (c \<in> set (classList s') \<longleftrightarrow> c \<in> set (classList s))"
  proof (cases f)
    case SendListener
    then show ?thesis by (auto simp: send_listener_eq split: if_splits)
  next
    case AfterOnLoadListener
    then show ?thesis by (auto simp: afterOnLoad_listener_eq)
  next
    case ResponseErrorListener
    with responseError_listener_cases [of e s] show ?thesis by auto
  qed
  show ?thesis
    by (intro conjI; fact)
qed

theorem other_classes_preserved_witness:
  "''dark'' \<noteq> ''hx-busy''
   \<and> ''dark'' \<in> set (classList page0)
   \<and> ''dark'' \<in> set (classList (dispatch_all
        [ev ''htmx:send'' JNull, ev ''htmx:responseError'' JNull, ev ''htmx:afterOnLoad'' JNull]
        page0))
   \<and> run_listener SendListener (ev ''htmx:send'' JNull) page0 = Inr busy_page
   \<and> ''dark'' \<in> set (classList busy_page)"
  using other_classes_preserved
          [of "[ev ''htmx:send'' JNull, ev ''htmx:responseError'' JNull, ev ''htmx:afterOnLoad'' JNull]"
              page0 SendListener "ev ''htmx:send'' JNull"]
  by (simp add: send_listener_eq busy_def busy_page_def page0_def)

text \<open>
  C10: the send listener and the completion listener return the same result whatever
  event they are called with, and leave the console as it was; on a page that holds
  only registrations of this file, two events of type \<^verbatim>\<open>htmx:send\<close> (or two of type
  \<^verbatim>\<open>htmx:afterOnLoad\<close>) lead to the same page, with the console unchanged.
\<close>

theorem busy_listeners_silent_and_payload_independent:
  "send_listener e s = send_listener e' s
   \<and> afterOnLoad_listener e s = afterOnLoad_listener e' s
   \<and> (\<forall>s'. send_listener e s = Inr s' \<longrightarrow> console s' = console s)
   \<and> (\<forall>s'. afterOnLoad_listener e s = Inr s' \<longrightarrow> console s' = console s)
   \<and> (set (listeners s) \<subseteq> set registrations \<and> etype e' = etype e
        \<and> (etype e = ''htmx:send'' \<or> etype e = ''htmx:afterOnLoad'') \<longrightarrow>
        dispatchEvent e s = dispatchEvent e' s \<and> console (dispatchEvent e s) = console s)"
proof -
  have disp: "set (listeners s) \<subseteq> set registrations \<and> etype e' = etype e
        \<and> (etype e = ''htmx:send'' \<or> etype e = ''htmx:afterOnLoad'') \<longrightarrow>
        dispatchEvent e s = dispatchEvent e' s \<and> console (dispatchEvent e s) = console s"
  proof (intro impI conjI)
    assume h: "set (listeners s) \<subseteq> set registrations \<and> etype e' = etype e
        \<and> (etype e = ''htmx:send'' \<or> etype e = ''htmx:afterOnLoad'')"
    show "dispatchEvent e s = dispatchEvent e' s"
      unfolding dispatchEvent_def
    proof (rule foldl_cong [OF refl refl])
      fix t :: env and r :: "string \<times> listener"
      assume "r \<in> set (listeners s)"
      with h have "r \<in> set registrations" by blast
      then show "invoke e t r = invoke e' t r"
        using h by (auto simp: in_registrations invoke_def send_listener_eq afterOnLoad_listener_eq)
    qed
    show "console (dispatchEvent e s) = console s"
      unfolding dispatchEvent_def
    proof (rule foldl_invoke_inv [where P = "\<lambda>t. console t = console s"])
      fix t :: env and r :: "string \<times> listener"
      assume "r \<in> set (listeners s)" and eq: "console t = console s"
      with h have "r \<in> set registrations" by blast
      then show "console (invoke e t r) = console s"
        using h eq
        by (auto simp: in_registrations invoke_other console_invoke_send console_invoke_afterOnLoad)
    qed simp
  qed
  have same_send: "send_listener e s = send_listener e' s"
    by (simp add: send_listener_eq)
  have same_load: "afterOnLoad_listener e s = afterOnLoad_listener e' s"
    by (simp add: afterOnLoad_listener_eq)
  have quiet_send: "\<forall>s'. send_listener e s = Inr s' \<longrightarrow> console s' = console s"
    by (auto simp: send_listener_eq)
  have quiet_load: "\<forall>s'. afterOnLoad_listener e s = Inr s' \<longrightarrow> console s' = console s"
    by (auto simp: afterOnLoad_listener_eq)
  show ?thesis
    by (intro conjI; fact)
qed

theorem busy_listeners_silent_and_payload_independent_witness:
  "set (listeners page0) \<subseteq> set registrations
   \<and> etype (ev ''htmx:send'' (JObj [(''xhr'', JNum 1)])) = etype (ev ''htmx:send'' JNull)
   \<and> etype (ev ''htmx:send'' JNull) = ''htmx:send''
   \<and> dispatchEvent (ev ''htmx:send'' JNull) page0
       = dispatchEvent (ev ''htmx:send'' (JObj [(''xhr'', JNum 1)])) page0
   \<and> console (dispatchEvent (ev ''htmx:send'' JNull) page0) = console page0
   \<and> send_listener (ev ''htmx:send'' JNull) page0 = Inr busy_page
   \<and> console busy_page = console page0
   \<and> afterOnLoad_listener (ev ''htmx:send'' JNull) page0 = Inr page0"
  using busy_listeners_silent_and_payload_independent
          [of "ev ''htmx:send'' JNull" page0 "ev ''htmx:send'' (JObj [(''xhr'', JNum 1)])"]
  by (auto simp: send_listener_eq afterOnLoad_listener_eq busy_def busy_page_def page0_def ev_def)

end
